theory Spec2Isabelle
  imports Main "HOL-Library.Sublist"
begin

section \<open>Cross-chain feature aggregation\<close>

text \<open>
  A shallow embedding of the pipeline component
  \<^verbatim>\<open>aggregate_features_across_chains\<close>
  (\<^verbatim>\<open>src/components/aggregate_features_across_chains.py\<close>).
  The component reads one pickled feature record per chain from object storage, converts
  each, annotates the set with assembly features, either takes the only record or pairs,
  merges and pads the records, writes the result back and fills in its output artifact.
  The diagnostic printing of array shapes has no effect on the result and is left out.
\<close>

subsection \<open>Python string operations\<close>

text \<open>
  \<^verbatim>\<open>s.replace(old, new)\<close>: every non-overlapping occurrence of \<open>old\<close>, found
  from the left, is replaced. For the empty \<open>old\<close> Python puts \<open>new\<close> before every
  character and at the end.
\<close>

function replace_ne :: "string \<Rightarrow> string \<Rightarrow> string \<Rightarrow> string" where
  "replace_ne old new [] = []"
| "replace_ne old new (c # cs) =
     (if old \<noteq> [] \<and> take (length old) (c # cs) = old
      then new @ replace_ne old new (drop (length old) (c # cs))
      else c # replace_ne old new cs)"
  by pat_completeness auto
termination
  by (relation "measure (\<lambda>(old, new, s). length s)") auto

definition replace :: "string \<Rightarrow> string \<Rightarrow> string \<Rightarrow> string" where
  "replace s old new =
     (if old = [] then new @ concat (map (\<lambda>c. c # new) s) else replace_ne old new s)"

text \<open>\<^verbatim>\<open>s.split(sep)\<close> for a one-character separator: never an empty list.\<close>

fun split :: "string \<Rightarrow> char \<Rightarrow> string list" where
  "split [] sep = [[]]"
| "split (c # cs) sep =
     (if c = sep then [] # split cs sep
      else (case split cs sep of
              [] \<Rightarrow> [[c]]
            | w # ws \<Rightarrow> (c # w) # ws))"

text \<open>\<^verbatim>\<open>sep.join(parts)\<close>.\<close>

fun join :: "string \<Rightarrow> string list \<Rightarrow> string" where
  "join sep [] = []"
| "join sep [x] = x"
| "join sep (x # y # ys) = x @ sep @ join sep (y # ys)"

text \<open>
  \<^verbatim>\<open>os.path.join(a, b)\<close> on POSIX: an absolute \<open>b\<close> replaces \<open>a\<close>; no separator
  is added after an empty \<open>a\<close> or one that already ends in a slash.
\<close>

definition os_path_join :: "string \<Rightarrow> string \<Rightarrow> string" where
  "os_path_join a b =
     (if b \<noteq> [] \<and> hd b = CHR ''/'' then b
      else if a = [] \<or> last a = CHR ''/'' then a @ b
      else a @ ''/'' @ b)"

subsection \<open>Data\<close>

text \<open>
  A feature record is a Python dict from field names to arrays. Arrays are nested lists of
  integers; the first dimension of the field \<open>msa\<close> is the alignment depth.
\<close>

datatype ndarray = Num int | Arr "ndarray list"

type_synonym feature_dict = "(string \<times> ndarray) list"

text \<open>The dict \<^verbatim>\<open>all_chain_features\<close>, in insertion order.\<close>

type_synonym chain_features = "(string \<times> feature_dict) list"

datatype error =
    ValueError string
  | FileNotFoundError string
  | RuntimeError string
  | LibraryError string

text \<open>\<^verbatim>\<open>str(e)\<close>: the message of an exception.\<close>

fun str :: "error \<Rightarrow> string" where
  "str (ValueError m) = m"
| "str (FileNotFoundError m) = m"
| "str (RuntimeError m) = m"
| "str (LibraryError m) = m"

datatype meta_value = MStr string | MInt int

record artifact =
  uri :: string
  metadata :: "(string \<times> meta_value) list"

text \<open>One entry of \<^verbatim>\<open>sequences.metadata['chain_info']\<close>; only the identifier is read.\<close>

record chain_data =
  chain_id :: string

text \<open>
  The decoded manifest \<^verbatim>\<open>paths_info = json.loads(per_chain_features_dir)\<close>:
  the field \<open>chains\<close> and the optional field \<open>full_protein\<close>.
\<close>

record manifest =
  chains :: "string \<rightharpoonup> string"
  full_protein :: "string option"

text \<open>
  What the component can change: the blobs of the object store, addressed by bucket
  and blob name, and its output artifact \<^verbatim>\<open>features\<close>.
\<close>

record 'b world =
  blobs :: "string \<times> string \<rightharpoonup> 'b"
  features :: artifact

text \<open>
  The library routines the component calls are parameters of the model: the pickle
  codec over the blob type \<open>'b\<close>, the four routines of the feature-processing library,
  the fault (if any) that the storage client raises when the handle of a blob is made
  (\<^verbatim>\<open>storage_client.bucket(name)\<close> followed by \<^verbatim>\<open>bucket.blob(path)\<close>, which
  reject for instance a malformed bucket name), and the fault (if any) that it raises on
  writing a blob. Each routine may raise.
\<close>

record 'b env =
  pickle_load :: "'b \<Rightarrow> error + feature_dict"
  pickle_dump :: "feature_dict \<Rightarrow> error + 'b"
  convert_monomer_features :: "feature_dict \<Rightarrow> string \<Rightarrow> error + feature_dict"
  add_assembly_features :: "chain_features \<Rightarrow> error + chain_features"
  pair_and_merge :: "chain_features \<Rightarrow> error + feature_dict"
  pad_msa :: "feature_dict \<Rightarrow> nat \<Rightarrow> error + feature_dict"
  handle_fault :: "string \<times> string \<Rightarrow> error option"
  upload_fault :: "string \<times> string \<Rightarrow> error option"

text \<open>\<^verbatim>\<open>d[k] = v\<close> on an insertion-ordered dict: an existing key keeps its place.\<close>

fun dict_set :: "'k \<Rightarrow> 'v \<Rightarrow> ('k \<times> 'v) list \<Rightarrow> ('k \<times> 'v) list" where
  "dict_set k v [] = [(k, v)]"
| "dict_set k v ((k', v') # kvs) =
     (if k' = k then (k, v) # kvs else (k', v') # dict_set k v kvs)"

text \<open>\<^verbatim>\<open>np_example['msa'].shape[0]\<close>, when the field is there and is an array.\<close>

definition msa_depth :: "feature_dict \<Rightarrow> nat option" where
  "msa_depth f =
     (case map_of f ''msa'' of
        Some (Arr rows) \<Rightarrow> Some (length rows)
      | _ \<Rightarrow> None)"

subsection \<open>Storage paths\<close>

text \<open>Lines 64-65: bucket and blob name of a chain's feature file.\<close>

definition chain_blob_location :: "string \<Rightarrow> string \<times> string" where
  "chain_blob_location features_path =
     (let bucket_name = hd (split (replace features_path ''gs://'' '''') CHR ''/'');
          blob_path = join ''/'' (tl (split (replace features_path ''gs://'' '''') CHR ''/''))
                        @ ''/features.pkl''
      in (bucket_name, blob_path))"

text \<open>Lines 126-127: the manifest's \<open>full_protein\<close> overrides the argument.\<close>

definition resolve_output_path :: "manifest \<Rightarrow> string \<Rightarrow> string" where
  "resolve_output_path paths_info output_features_path =
     (case full_protein paths_info of
        Some p \<Rightarrow> p
      | None \<Rightarrow> output_features_path)"

text \<open>Lines 130-132: bucket and blob name of the merged record.\<close>

definition dest_location :: "string \<Rightarrow> string \<times> string" where
  "dest_location output_features_path =
     (let dest_bucket_name = hd (split (replace output_features_path ''gs://'' '''') CHR ''/'');
          dest_prefix = join ''/'' (tl (split (replace output_features_path ''gs://'' '''') CHR ''/''));
          dest_blob_path = os_path_join dest_prefix ''all_chain_features.pkl''
      in (dest_bucket_name, dest_blob_path))"

text \<open>The address of a blob as the source prints it: \<^verbatim>\<open>gs://{bucket_name}/{blob_path}\<close>.\<close>

definition gs_uri :: "string \<times> string \<Rightarrow> string" where
  "gs_uri loc = ''gs://'' @ fst loc @ ''/'' @ snd loc"

subsection \<open>The component\<close>

text \<open>
  Lines 54-93, the loop over \<^verbatim>\<open>chain_info\<close>. It only reads the store; the
  accumulator is \<^verbatim>\<open>all_chain_features\<close>. The first chain that fails ends the loop.
  For each chain the manifest entry is looked up (line 58), the handle of its blob is made
  (lines 67-68), the blob is looked for (line 70), then loaded and converted.
\<close>

fun load_chains ::
  "'b env \<Rightarrow> 'b world \<Rightarrow> (string \<rightharpoonup> string) \<Rightarrow> chain_data list \<Rightarrow> chain_features
    \<Rightarrow> error + chain_features" where
  "load_chains env w paths [] all_chain_features = Inr all_chain_features"
| "load_chains env w paths (cd # rest) all_chain_features =
     (case paths (chain_id cd) of
        None \<Rightarrow> Inl (ValueError (''No path information found for chain '' @ chain_id cd))
      | Some features_path \<Rightarrow>
          (case handle_fault env (chain_blob_location features_path) of
             Some e \<Rightarrow> Inl e
           | None \<Rightarrow>
               (case blobs w (chain_blob_location features_path) of
                  None \<Rightarrow>
                    Inl (FileNotFoundError
                          (''Features file not found in GCS for chain '' @ chain_id cd @ '': ''
                             @ gs_uri (chain_blob_location features_path)))
                | Some b \<Rightarrow>
                    (case pickle_load env b of
                       Inl e \<Rightarrow> Inl e
                     | Inr raw \<Rightarrow>
                         (case convert_monomer_features env raw (chain_id cd) of
                            Inl e \<Rightarrow> Inl e
                          | Inr chain_features \<Rightarrow>
                              load_chains env w paths rest
                                (dict_set (chain_id cd) chain_features
                                   all_chain_features))))))"

text \<open>
  Lines 102-123, the branch. With exactly one record and the flag equal to the string
  \<open>true\<close> the record under the first key is taken; otherwise the records are paired,
  merged and padded with the constant 512.
\<close>

definition merge_features :: "'b env \<Rightarrow> string \<Rightarrow> chain_features \<Rightarrow> error + feature_dict" where
  "merge_features env is_homomer_or_monomer all_chain_features =
     (if is_homomer_or_monomer = ''true'' \<and> length all_chain_features = 1
      then Inr (the (map_of all_chain_features (fst (hd all_chain_features))))
      else (case pair_and_merge env all_chain_features of
              Inl e \<Rightarrow> Inl e
            | Inr np_example \<Rightarrow> pad_msa env np_example 512))"

text \<open>
  Lines 136-140, the body of the \<^verbatim>\<open>try\<close>: serialise, then upload. Either step may
  raise; only a completed upload changes the store.
\<close>

definition save_features ::
  "'b env \<Rightarrow> string \<times> string \<Rightarrow> feature_dict \<Rightarrow> 'b world \<Rightarrow> error + 'b world" where
  "save_features env dest np_example w =
     (case pickle_dump env np_example of
        Inl e \<Rightarrow> Inl e
      | Inr bytes \<Rightarrow>
          (case upload_fault env dest of
             Some e \<Rightarrow> Inl e
           | None \<Rightarrow> Inr (w\<lparr>blobs := (blobs w)(dest \<mapsto> bytes)\<rparr>)))"

text \<open>
  Lines 125-148: resolve the destination, make the handle of the destination blob (lines
  133-134, before the \<^verbatim>\<open>try\<close>, so that its exception is not wrapped), save, and
  fill in the output artifact.
\<close>

definition store_result ::
  "'b env \<Rightarrow> manifest \<Rightarrow> string \<Rightarrow> string \<Rightarrow> chain_features \<Rightarrow> feature_dict \<Rightarrow> 'b world
    \<Rightarrow> (error + unit) \<times> 'b world" where
  "store_result env paths_info is_homomer_or_monomer output_features_path0
       all_chain_features np_example w =
     (let output_features_path = resolve_output_path paths_info output_features_path0
      in case handle_fault env (dest_location output_features_path) of
           Some e \<Rightarrow> (Inl e, w)
         | None \<Rightarrow>
             (case save_features env (dest_location output_features_path) np_example w of
                Inl e \<Rightarrow>
                  (Inl (RuntimeError
                         (''Failed to save features to GCS at '' @ output_features_path @ '': ''
                            @ str e)), w)
              | Inr w' \<Rightarrow>
                  (Inr (),
                   w'\<lparr>features :=
                        \<lparr>uri = os_path_join output_features_path ''all_chain_features.pkl'',
                         metadata =
                           [(''is_homomer_or_monomer'', MStr is_homomer_or_monomer),
                            (''num_chains'', MInt (int (length all_chain_features)))]\<rparr>\<rparr>)))"

text \<open>
  The whole component. The result is the exception raised, if any, together with the
  world the run leaves behind.
\<close>

definition aggregate_features_across_chains ::
  "'b env \<Rightarrow> manifest \<Rightarrow> chain_data list \<Rightarrow> string \<Rightarrow> string \<Rightarrow> 'b world
    \<Rightarrow> (error + unit) \<times> 'b world" where
  "aggregate_features_across_chains env paths_info chain_info is_homomer_or_monomer
       output_features_path w =
     (case load_chains env w (chains paths_info) chain_info [] of
        Inl e \<Rightarrow> (Inl e, w)
      | Inr loaded \<Rightarrow>
          (case add_assembly_features env loaded of
             Inl e \<Rightarrow> (Inl e, w)
           | Inr all_chain_features \<Rightarrow>
               (case merge_features env is_homomer_or_monomer all_chain_features of
                  Inl e \<Rightarrow> (Inl e, w)
                | Inr np_example \<Rightarrow>
                    store_result env paths_info is_homomer_or_monomer output_features_path
                      all_chain_features np_example w)))"

subsection \<open>Well-formed storage paths\<close>

text \<open>
  A path of the shape \<^verbatim>\<open>gs://bucket/prefix\<close>: it starts with the scheme, the
  scheme does not occur again, and a slash ends the bucket name (the prefix after it
  may be empty).
\<close>

definition gs_path :: "string \<Rightarrow> bool" where
  "gs_path p \<longleftrightarrow>
     take 5 p = ''gs://'' \<and> CHR ''/'' \<in> set (drop 5 p) \<and> \<not> sublist ''gs://'' (drop 5 p)"

subsection \<open>The library routines as the spec describes them\<close>

text \<open>
  Modelled from the spec: the routine \<^verbatim>\<open>pipeline_multimer.pad_msa\<close> belongs to the
  feature-processing library, which is not part of the sources. The spec gives its contract:
  it pads the combined alignment dimension to a fixed depth, ``truncating or zero-filling''.
  Here the alignment array is cut to its first \<open>n\<close> rows or filled up to \<open>n\<close> rows with
  rows of zeros; a record without an alignment array is an error.
\<close>

definition zero_row :: "ndarray list \<Rightarrow> ndarray" where
  "zero_row rows =
     (case rows of
        Arr r # _ \<Rightarrow> Arr (replicate (length r) (Num 0))
      | _ \<Rightarrow> Num 0)"

definition pad_msa_spec :: "feature_dict \<Rightarrow> nat \<Rightarrow> error + feature_dict" where
  "pad_msa_spec np_example n =
     (case map_of np_example ''msa'' of
        Some (Arr rows) \<Rightarrow>
          Inr (dict_set ''msa''
                 (Arr (take n rows @ replicate (n - length rows) (zero_row rows))) np_example)
      | _ \<Rightarrow> Inl (LibraryError ''msa''))"

text \<open>
  Modelled from the spec: the routine \<^verbatim>\<open>pipeline_multimer.add_assembly_features\<close>
  belongs to the same library. The spec gives its contract: ``given the set of per-chain
  converted records, returns the same set annotated with cross-chain identifiers (assembly
  index, entity index, copy count)''. Here the records keep their keys and order and are
  numbered from 1; the spec does not say how repeated sequences share an entity index, so
  every record is an entity of its own with copy count 1.
\<close>

fun annotate :: "nat \<Rightarrow> chain_features \<Rightarrow> chain_features" where
  "annotate i [] = []"
| "annotate i ((k, f) # rest) =
     (k, dict_set ''sym_id'' (Num 1)
           (dict_set ''entity_id'' (Num (int i))
              (dict_set ''asym_id'' (Num (int i)) f)))
     # annotate (Suc i) rest"

definition add_assembly_features_spec :: "chain_features \<Rightarrow> error + chain_features" where
  "add_assembly_features_spec all_chain_features = Inr (annotate 1 all_chain_features)"

text \<open>
  Modelled from the spec: the routine \<^verbatim>\<open>feature_processing.pair_and_merge\<close> belongs
  to the same library. The spec gives its contract: it ``concatenates per-chain fields along
  the appropriate axis, and returns one combined record''. Here the combined record holds
  the alignment rows of all chains, one chain after the other.
\<close>

definition msa_rows :: "feature_dict \<Rightarrow> ndarray list" where
  "msa_rows f = (case map_of f ''msa'' of Some (Arr rows) \<Rightarrow> rows | _ \<Rightarrow> [])"

definition pair_and_merge_spec :: "chain_features \<Rightarrow> error + feature_dict" where
  "pair_and_merge_spec all_chain_features =
     Inr [(''msa'', Arr (concat (map (\<lambda>kf. msa_rows (snd kf)) all_chain_features)))]"

subsection \<open>A worked example\<close>

text \<open>
  Two chains \<open>A\<close> (alignment depth 2) and \<open>B\<close> (alignment depth 1) in a bucket, the
  library routines as described above, blobs holding the pickled record itself, and a
  storage client that accepts every name and every write.
\<close>

definition record_A :: feature_dict where
  "record_A = [(''msa'', Arr [Arr [Num 1, Num 2], Arr [Num 3, Num 4]]),
               (''aatype'', Arr [Num 0, Num 5])]"

definition record_B :: feature_dict where
  "record_B = [(''msa'', Arr [Arr [Num 7, Num 8]]),
               (''aatype'', Arr [Num 9, Num 6])]"

definition example_env :: "feature_dict env" where
  "example_env =
     \<lparr>pickle_load = Inr,
      pickle_dump = Inr,
      convert_monomer_features = (\<lambda>monomer_features cid. Inr monomer_features),
      add_assembly_features = add_assembly_features_spec,
      pair_and_merge = pair_and_merge_spec,
      pad_msa = pad_msa_spec,
      handle_fault = (\<lambda>loc. None),
      upload_fault = (\<lambda>dest. None)\<rparr>"

definition example_manifest :: manifest where
  "example_manifest =
     \<lparr>chains = [''A'' \<mapsto> ''gs://bkt/run/A'', ''B'' \<mapsto> ''gs://bkt/run/B''],
      full_protein = Some ''gs://bkt/run/full''\<rparr>"

definition example_world :: "feature_dict world" where
  "example_world =
     \<lparr>blobs = [(''bkt'', ''run/A/features.pkl'') \<mapsto> record_A,
               (''bkt'', ''run/B/features.pkl'') \<mapsto> record_B],
      features = \<lparr>uri = ''gs://pipeline-root/features'', metadata = []\<rparr>\<rparr>"

definition chain_A :: chain_data where
  "chain_A = \<lparr>chain_id = ''A''\<rparr>"

definition chain_B :: chain_data where
  "chain_B = \<lparr>chain_id = ''B''\<rparr>"

text \<open>Variations of the example: manifests that list only one of the chains, a store
  without blobs, and a store that refuses the final write.\<close>

definition manifest_only_A :: manifest where
  "manifest_only_A = \<lparr>chains = [''A'' \<mapsto> ''gs://bkt/run/A''], full_protein = None\<rparr>"

definition manifest_only_B :: manifest where
  "manifest_only_B = \<lparr>chains = [''B'' \<mapsto> ''gs://bkt/run/B''], full_protein = None\<rparr>"

definition empty_world :: "feature_dict world" where
  "empty_world =
     \<lparr>blobs = Map.empty,
      features = \<lparr>uri = ''gs://pipeline-root/features'', metadata = []\<rparr>\<rparr>"

definition world_only_A :: "feature_dict world" where
  "world_only_A =
     \<lparr>blobs = [(''bkt'', ''run/A/features.pkl'') \<mapsto> record_A],
      features = \<lparr>uri = ''gs://pipeline-root/features'', metadata = []\<rparr>\<rparr>"

definition failing_env :: "feature_dict env" where
  "failing_env =
     example_env\<lparr>upload_fault := (\<lambda>dest. Some (LibraryError ''403 Forbidden''))\<rparr>"

text \<open>The record of chain \<open>A\<close> with the assembly annotation, and the record that pairing
  and merging makes of the two chains.\<close>

definition annotated_A :: feature_dict where
  "annotated_A = record_A @ [(''asym_id'', Num 1), (''entity_id'', Num 1), (''sym_id'', Num 1)]"

definition merged_AB :: feature_dict where
  "merged_AB = [(''msa'', Arr [Arr [Num 1, Num 2], Arr [Num 3, Num 4], Arr [Num 7, Num 8]])]"



text \<open>Paths of other shapes: an output prefix that ends in a slash, and a chain whose
  features lie at the root of the bucket.\<close>

definition manifest_slash :: manifest where
  "manifest_slash =
     \<lparr>chains = [''A'' \<mapsto> ''gs://bkt/run/A''], full_protein = Some ''gs://bkt/run/full/''\<rparr>"

definition manifest_root :: manifest where
  "manifest_root = \<lparr>chains = [''A'' \<mapsto> ''gs://bkt''], full_protein = None\<rparr>"

definition world_root :: "feature_dict world" where
  "world_root =
     \<lparr>blobs = [(''bkt'', ''features.pkl'') \<mapsto> record_A],
      features = \<lparr>uri = ''gs://pipeline-root/features'', metadata = []\<rparr>\<rparr>"

section \<open>Properties\<close>

subsection \<open>Strings and paths\<close>

lemma replace_ne_id: "\<not> sublist old s \<Longrightarrow> replace_ne old new s = s"
proof (induction old new s rule: replace_ne.induct)
  case (1 old new)
  then show ?case by simp
next
  case (2 old new c cs)
  have np: "\<not> prefix old (c # cs)" and ns: "\<not> sublist old cs"
    using "2.prems" by (auto simp: sublist_Cons_right)
  have "take (length old) (c # cs) \<noteq> old"
    using np by (metis take_is_prefix)
  then show ?case using 2 ns by simp
qed

lemma replace_scheme:
  assumes "\<not> sublist ''gs://'' rest"
  shows "replace (''gs://'' @ rest) ''gs://'' '''' = rest"
  using assms by (simp add: replace_def replace_ne_id)

lemma split_not_Nil: "split s sep \<noteq> []"
  by (induction s) (auto split: list.splits)

lemma split_bucket: "sep \<notin> set b \<Longrightarrow> split (b @ sep # d) sep = b # split d sep"
  by (induction b) (auto split: list.splits)

lemma join_split: "join [sep] (split d sep) = d"
proof (induction d)
  case Nil
  then show ?case by simp
next
  case (Cons c d)
  obtain w ws where s: "split d sep = w # ws"
    using split_not_Nil[of d sep] by (cases "split d sep") auto
  show ?case
  proof (cases "c = sep")
    case True
    then show ?thesis using Cons s by simp
  next
    case False
    then show ?thesis using Cons s by (cases ws) auto
  qed
qed

lemma strip_bucket:
  assumes "CHR ''/'' \<notin> set b" and "\<not> sublist ''gs://'' (b @ ''/'' @ d)"
  shows "hd (split (replace (''gs://'' @ b @ ''/'' @ d) ''gs://'' '''') CHR ''/'') = b"
    and "join ''/'' (tl (split (replace (''gs://'' @ b @ ''/'' @ d) ''gs://'' '''') CHR ''/'')) = d"
proof -
  have r: "replace (''gs://'' @ b @ ''/'' @ d) ''gs://'' '''' = b @ ''/'' @ d"
    using assms(2) by (rule replace_scheme)
  have s: "split (b @ ''/'' @ d) CHR ''/'' = b # split d CHR ''/''"
    using split_bucket[OF assms(1), of d] by simp
  have j: "join ''/'' (split d CHR ''/'') = d"
    using join_split[of "CHR ''/''" d] by simp
  show "hd (split (replace (''gs://'' @ b @ ''/'' @ d) ''gs://'' '''') CHR ''/'') = b"
    unfolding r s by simp
  show "join ''/'' (tl (split (replace (''gs://'' @ b @ ''/'' @ d) ''gs://'' '''') CHR ''/'')) = d"
    unfolding r s using j by simp
qed

lemma chain_blob_location_gs:
  assumes "CHR ''/'' \<notin> set b" and "\<not> sublist ''gs://'' (b @ ''/'' @ d)"
  shows "chain_blob_location (''gs://'' @ b @ ''/'' @ d) = (b, d @ ''/features.pkl'')"
  unfolding chain_blob_location_def Let_def strip_bucket[OF assms] by simp

lemma dest_location_gs:
  assumes "CHR ''/'' \<notin> set b" and "\<not> sublist ''gs://'' (b @ ''/'' @ d)"
  shows "dest_location (''gs://'' @ b @ ''/'' @ d)
           = (b, os_path_join d ''all_chain_features.pkl'')"
  unfolding dest_location_def Let_def strip_bucket[OF assms] by simp

lemma gs_pathE:
  assumes "gs_path p"
  obtains b d where "p = ''gs://'' @ b @ ''/'' @ d" and "CHR ''/'' \<notin> set b"
    and "\<not> sublist ''gs://'' (b @ ''/'' @ d)"
proof -
  let ?rest = "drop 5 p"
  let ?b = "takeWhile (\<lambda>c. c \<noteq> CHR ''/'') ?rest"
  let ?t = "dropWhile (\<lambda>c. c \<noteq> CHR ''/'') ?rest"
  have mem: "CHR ''/'' \<in> set ?rest"
    using assms by (simp add: gs_path_def)
  then have ne: "?t \<noteq> []"
    by (simp add: dropWhile_eq_Nil_conv)
  moreover have "hd ?t = CHR ''/''"
    using hd_dropWhile[of "\<lambda>c. c \<noteq> CHR ''/''" ?rest] ne by auto
  ultimately have t: "?t = ''/'' @ tl ?t"
    by (cases ?t) auto
  have "?rest = ?b @ ?t" by simp
  then have rest: "?rest = ?b @ ''/'' @ tl ?t"
    using t by metis
  have "p = take 5 p @ ?rest" by simp
  then have p: "p = ''gs://'' @ ?b @ ''/'' @ tl ?t"
    using assms rest by (metis gs_path_def)
  have nb: "CHR ''/'' \<notin> set ?b"
    by (metis (mono_tags, lifting) set_takeWhileD)
  have "\<not> sublist ''gs://'' (?b @ ''/'' @ tl ?t)"
    using assms rest by (metis gs_path_def)
  then show ?thesis using that p nb by blast
qed

lemma chain_uri_gs:
  assumes "gs_path p"
  shows "gs_uri (chain_blob_location p) = p @ ''/features.pkl''"
proof -
  obtain b d where p: "p = ''gs://'' @ b @ ''/'' @ d" and b: "CHR ''/'' \<notin> set b"
    and n: "\<not> sublist ''gs://'' (b @ ''/'' @ d)"
    using assms by (rule gs_pathE)
  have "chain_blob_location p = (b, d @ ''/features.pkl'')"
    unfolding p by (rule chain_blob_location_gs[OF b n])
  then show ?thesis
    by (simp add: gs_uri_def p)
qed

lemma dest_uri_gs:
  assumes "gs_path p"
  shows "gs_uri (dest_location p) = os_path_join p ''all_chain_features.pkl''"
proof -
  obtain b d where p: "p = ''gs://'' @ b @ ''/'' @ d" and b: "CHR ''/'' \<notin> set b"
    and n: "\<not> sublist ''gs://'' (b @ ''/'' @ d)"
    using assms by (rule gs_pathE)
  have "dest_location p = (b, os_path_join d ''all_chain_features.pkl'')"
    unfolding p by (rule dest_location_gs[OF b n])
  then show ?thesis
    by (auto simp: gs_uri_def p os_path_join_def)
qed

subsection \<open>The loop and the phases of a run\<close>

lemmas example_defs =
  example_env_def example_world_def example_manifest_def chain_A_def chain_B_def
  add_assembly_features_spec_def pair_and_merge_spec_def
  manifest_only_A_def manifest_only_B_def empty_world_def world_only_A_def failing_env_def

lemmas run_defs =
  aggregate_features_across_chains_def merge_features_def store_result_def save_features_def
  resolve_output_path_def chain_blob_location_def dest_location_def gs_uri_def
  replace_def os_path_join_def

lemma load_chains_append:
  "load_chains env w paths (xs @ ys) acc =
     (case load_chains env w paths xs acc of
        Inl e \<Rightarrow> Inl e
      | Inr acc' \<Rightarrow> load_chains env w paths ys acc')"
  by (induction xs arbitrary: acc) (auto split: option.splits sum.splits)

lemma load_chains_missing_entry:
  "c \<in> set cs \<Longrightarrow> paths (chain_id c) = None \<Longrightarrow> \<exists>e. load_chains env w paths cs acc = Inl e"
  by (induction cs arbitrary: acc) (auto split: option.splits sum.splits)


lemma load_error_result:
  "load_chains env w (chains paths_info) chain_info [] = Inl e \<Longrightarrow>
   aggregate_features_across_chains env paths_info chain_info flag out w = (Inl e, w)"
  by (simp add: aggregate_features_across_chains_def)

lemma after_assembly:
  "load_chains env w (chains paths_info) chain_info [] = Inr loaded \<Longrightarrow>
   add_assembly_features env loaded = Inr acf \<Longrightarrow>
   aggregate_features_across_chains env paths_info chain_info flag out w =
     (case merge_features env flag acf of
        Inl e \<Rightarrow> (Inl e, w)
      | Inr np_example \<Rightarrow> store_result env paths_info flag out acf np_example w)"
  by (simp add: aggregate_features_across_chains_def)

lemma store_result_ok:
  "handle_fault env (dest_location (resolve_output_path paths_info out)) = None \<Longrightarrow>
   pickle_dump env np_example = Inr bytes \<Longrightarrow>
   upload_fault env (dest_location (resolve_output_path paths_info out)) = None \<Longrightarrow>
   store_result env paths_info flag out acf np_example w =
     (Inr (),
      w\<lparr>blobs := (blobs w)(dest_location (resolve_output_path paths_info out) \<mapsto> bytes),
        features :=
          \<lparr>uri = os_path_join (resolve_output_path paths_info out) ''all_chain_features.pkl'',
           metadata = [(''is_homomer_or_monomer'', MStr flag),
                       (''num_chains'', MInt (int (length acf)))]\<rparr>\<rparr>)"
  by (simp add: store_result_def save_features_def Let_def)


subsection \<open>A chain missing from the manifest\<close>

text \<open>
  C3, as amended. If a listed chain has no entry in the manifest's \<open>chains\<close> mapping,
  the run raises and leaves the store and the output artifact as they were. The error is
  the \<open>ValueError\<close> that names this chain when every chain listed before it was loaded;
  otherwise the loop has already stopped at an earlier chain.
\<close>

theorem missing_manifest_entry:
  assumes "c \<in> set chain_info" and "chains paths_info (chain_id c) = None"
  shows "(\<exists>e. aggregate_features_across_chains env paths_info chain_info flag out w = (Inl e, w))
       \<and> (\<forall>before after loaded.
            chain_info = before @ c # after
            \<and> load_chains env w (chains paths_info) before [] = Inr loaded
            \<longrightarrow> aggregate_features_across_chains env paths_info chain_info flag out w
                  = (Inl (ValueError (''No path information found for chain '' @ chain_id c)), w))"
proof (intro conjI allI impI)
  obtain e where "load_chains env w (chains paths_info) chain_info [] = Inl e"
    using assms load_chains_missing_entry by blast
  then show "\<exists>e. aggregate_features_across_chains env paths_info chain_info flag out w = (Inl e, w)"
    using load_error_result by blast
next
  fix before after loaded
  assume h: "chain_info = before @ c # after
             \<and> load_chains env w (chains paths_info) before [] = Inr loaded"
  then have "load_chains env w (chains paths_info) chain_info []
               = Inl (ValueError (''No path information found for chain '' @ chain_id c))"
    using assms(2) by (simp add: load_chains_append)
  then show "aggregate_features_across_chains env paths_info chain_info flag out w
               = (Inl (ValueError (''No path information found for chain '' @ chain_id c)), w)"
    by (rule load_error_result)
qed

theorem missing_manifest_entry_witness:
  "chain_B \<in> set [chain_A, chain_B]
   \<and> chains manifest_only_A (chain_id chain_B) = None
   \<and> [chain_A, chain_B] = [chain_A] @ chain_B # []
   \<and> load_chains example_env example_world (chains manifest_only_A) [chain_A] []
       = Inr [(''A'', record_A)]
   \<and> aggregate_features_across_chains example_env manifest_only_A
        [chain_A, chain_B] ''false'' ''gs://bkt/out'' example_world
       = (Inl (ValueError ''No path information found for chain B''), example_world)"
proof -
  have m: "chain_B \<in> set [chain_A, chain_B]" by simp
  have n: "chains manifest_only_A (chain_id chain_B) = None"
    by (simp add: example_defs)
  have s: "[chain_A, chain_B] = [chain_A] @ chain_B # []" by simp
  have l: "load_chains example_env example_world (chains manifest_only_A) [chain_A] []
             = Inr [(''A'', record_A)]"
    by (simp add: example_defs chain_blob_location_def replace_def)
  from missing_manifest_entry[OF m n, of example_env "''false''" "''gs://bkt/out''" example_world]
  have "aggregate_features_across_chains example_env manifest_only_A [chain_A, chain_B] ''false''
          ''gs://bkt/out'' example_world
        = (Inl (ValueError (''No path information found for chain '' @ chain_id chain_B)),
           example_world)"
    using s l by blast
  then show ?thesis using m n s l by (simp add: chain_B_def)
qed

text \<open>
  The claim as stated fails: chain \<open>B\<close> is listed and has no manifest entry, yet the
  error is the file-not-found error of chain \<open>A\<close>, listed before it, and its message
  does not mention \<open>B\<close>.
\<close>

theorem missing_manifest_entry_counterexample:
  "chain_B \<in> set [chain_A, chain_B]
   \<and> chains manifest_only_A (chain_id chain_B) = None
   \<and> fst (aggregate_features_across_chains example_env manifest_only_A
             [chain_A, chain_B] ''false'' ''gs://bkt/out'' empty_world)
       = Inl (FileNotFoundError
               ''Features file not found in GCS for chain A: gs://bkt/run/A/features.pkl'')
   \<and> \<not> sublist (chain_id chain_B)
          ''Features file not found in GCS for chain A: gs://bkt/run/A/features.pkl''"
  by (simp add: example_defs run_defs sublist_code)

subsection \<open>A feature blob missing from the store\<close>




subsection \<open>A failed upload\<close>





subsection \<open>The dict of loaded chains\<close>

lemma map_of_dict_set: "map_of (dict_set k v d) k' = (if k' = k then Some v else map_of d k')"
  by (induction d) auto

lemma dict_set_map_fst:
  "map fst (dict_set k v d) = (if k \<in> set (map fst d) then map fst d else map fst d @ [k])"
  by (induction d) (auto simp: rev_image_eqI)

lemma dict_set_keys: "fst ` set (dict_set k v d) = insert k (fst ` set d)"
proof -
  have "set (map fst (dict_set k v d)) = insert k (set (map fst d))"
    unfolding dict_set_map_fst by auto
  then show ?thesis by simp
qed

lemma dict_set_distinct: "distinct (map fst d) \<Longrightarrow> distinct (map fst (dict_set k v d))"
  unfolding dict_set_map_fst by auto

lemma load_chains_keys:
  "load_chains env w paths cs acc = Inr acc' \<Longrightarrow> distinct (map fst acc) \<Longrightarrow>
   distinct (map fst acc') \<and> fst ` set acc' = fst ` set acc \<union> chain_id ` set cs"
proof (induction cs arbitrary: acc)
  case Nil
  then show ?case by simp
next
  case (Cons c cs)
  from Cons.prems(1) obtain conv where
    r: "load_chains env w paths cs (dict_set (chain_id c) conv acc) = Inr acc'"
    by (auto split: option.splits sum.splits)
  have "distinct (map fst (dict_set (chain_id c) conv acc))"
    using Cons.prems(2) by (rule dict_set_distinct)
  from Cons.IH[OF r this] show ?case
    by (auto simp: dict_set_keys)
qed

lemma load_chains_length:
  assumes "load_chains env w paths cs [] = Inr loaded"
  shows "length loaded = length (remdups (map chain_id cs))"
proof -
  have d: "distinct (map fst loaded)" and k: "fst ` set loaded = chain_id ` set cs"
    using load_chains_keys[OF assms] by auto
  have "length loaded = length (map fst loaded)" by simp
  also have "\<dots> = card (set (map fst loaded))"
    using d by (simp only: distinct_card)
  also have "\<dots> = card (chain_id ` set cs)"
    using k by simp
  also have "\<dots> = length (remdups (map chain_id cs))"
    by (simp add: length_remdups_card_conv)
  finally show ?thesis .
qed

lemma load_chains_other_key:
  "load_chains env w paths cs acc = Inr acc' \<Longrightarrow> k \<notin> chain_id ` set cs \<Longrightarrow>
   map_of acc' k = map_of acc k"
proof (induction cs arbitrary: acc)
  case Nil
  then show ?case by simp
next
  case (Cons c cs)
  from Cons.prems(1) obtain conv where
    r: "load_chains env w paths cs (dict_set (chain_id c) conv acc) = Inr acc'"
    by (auto split: option.splits sum.splits)
  have "map_of acc' k = map_of (dict_set (chain_id c) conv acc) k"
    using Cons.IH[OF r] Cons.prems(2) by simp
  then show ?case using Cons.prems(2) by (simp add: map_of_dict_set)
qed

lemma load_chains_reads:
  "load_chains env w paths cs acc = Inr acc' \<Longrightarrow> c \<in> set cs \<Longrightarrow>
   \<exists>p x raw conv. paths (chain_id c) = Some p \<and> blobs w (chain_blob_location p) = Some x
      \<and> pickle_load env x = Inr raw \<and> convert_monomer_features env raw (chain_id c) = Inr conv
      \<and> map_of acc' (chain_id c) = Some conv"
proof (induction cs arbitrary: acc c)
  case Nil
  then show ?case by simp
next
  case (Cons a cs)
  from Cons.prems(1) obtain p x raw conv where
    a: "paths (chain_id a) = Some p" "blobs w (chain_blob_location p) = Some x"
       "pickle_load env x = Inr raw" "convert_monomer_features env raw (chain_id a) = Inr conv"
    and r: "load_chains env w paths cs (dict_set (chain_id a) conv acc) = Inr acc'"
    by (auto split: option.splits sum.splits)
  show ?case
  proof (cases "chain_id c \<in> chain_id ` set cs")
    case True
    then obtain c' where c': "c' \<in> set cs" "chain_id c' = chain_id c" by auto
    from Cons.IH[OF r c'(1)] show ?thesis unfolding c'(2) .
  next
    case False
    then have "c = a" using Cons.prems(2) by auto
    moreover have "map_of acc' (chain_id a) = Some conv"
      using load_chains_other_key[OF r] False \<open>c = a\<close> by (simp add: map_of_dict_set)
    ultimately show ?thesis using a by auto
  qed
qed

lemma load_chains_cong_env:
  "pickle_load env' = pickle_load env \<Longrightarrow>
   handle_fault env' = handle_fault env \<Longrightarrow>
   convert_monomer_features env' = convert_monomer_features env \<Longrightarrow>
   load_chains env' w paths cs acc = load_chains env w paths cs acc"
  by (induction cs arbitrary: acc) (auto split: option.splits sum.splits)

lemma load_single:
  "paths (chain_id c) = Some p \<Longrightarrow> handle_fault env (chain_blob_location p) = None \<Longrightarrow>
   blobs w (chain_blob_location p) = Some x \<Longrightarrow>
   pickle_load env x = Inr raw \<Longrightarrow> convert_monomer_features env raw (chain_id c) = Inr converted \<Longrightarrow>
   load_chains env w paths [c] [] = Inr [(chain_id c, converted)]"
  by simp

lemma merge_single: "merge_features env ''true'' [(k, r)] = Inr r"
  by (simp add: merge_features_def)

lemma single_branch_ignores_library:
  assumes "load_chains env w (chains paths_info) chain_info [] = Inr loaded"
      and "add_assembly_features env loaded = Inr [(k, r)]"
  shows "aggregate_features_across_chains (env\<lparr>pair_and_merge := pm, pad_msa := pd\<rparr>)
           paths_info chain_info ''true'' out w
         = aggregate_features_across_chains env paths_info chain_info ''true'' out w"
proof -
  let ?env = "env\<lparr>pair_and_merge := pm, pad_msa := pd\<rparr>"
  have "load_chains ?env w (chains paths_info) chain_info []
          = load_chains env w (chains paths_info) chain_info []"
    by (rule load_chains_cong_env) simp_all
  then have l: "load_chains ?env w (chains paths_info) chain_info [] = Inr loaded"
    using assms(1) by simp
  have a: "add_assembly_features ?env loaded = Inr [(k, r)]"
    using assms(2) by simp
  show ?thesis
    unfolding after_assembly[OF l a] after_assembly[OF assms]
    by (simp add: merge_single store_result_def save_features_def Let_def
          split: sum.splits option.splits)
qed

subsection \<open>The metadata of a successful run\<close>

text \<open>
  C6. On every successful run the metadata of the output artifact holds the flag as it was
  given and, under \<open>num_chains\<close>, the number of chains processed: the number of
  distinct chain identifiers of the chain-info list, which is the number of records of
  \<^verbatim>\<open>all_chain_features\<close> since the assembly annotation returns as many records as
  it is given.
\<close>

theorem metadata_reports_chains:
  assumes "aggregate_features_across_chains env paths_info chain_info flag out w = (Inr (), w')"
      and "\<And>d d'. add_assembly_features env d = Inr d' \<Longrightarrow> length d' = length d"
  shows "metadata (features w')
           = [(''is_homomer_or_monomer'', MStr flag),
              (''num_chains'', MInt (int (length (remdups (map chain_id chain_info)))))]"
proof -
  from assms(1) obtain loaded acf np_example where
    l: "load_chains env w (chains paths_info) chain_info [] = Inr loaded"
    and a: "add_assembly_features env loaded = Inr acf"
    and s: "store_result env paths_info flag out acf np_example w = (Inr (), w')"
    by (auto simp: aggregate_features_across_chains_def split: sum.splits)
  have "length acf = length (remdups (map chain_id chain_info))"
    using assms(2)[OF a] load_chains_length[OF l] by simp
  moreover have "metadata (features w')
           = [(''is_homomer_or_monomer'', MStr flag), (''num_chains'', MInt (int (length acf)))]"
    using s by (auto simp: store_result_def Let_def split: sum.splits option.splits)
  ultimately show ?thesis by simp
qed

lemma annotate_length: "length (annotate i d) = length d"
  by (induction i d rule: annotate.induct) auto

lemma example_run_two:
  "aggregate_features_across_chains example_env example_manifest [chain_A, chain_B]
     ''false'' ''gs://bkt/out'' example_world
   = (Inr (), snd (aggregate_features_across_chains example_env example_manifest
                     [chain_A, chain_B] ''false'' ''gs://bkt/out'' example_world))"
proof -
  have "fst (aggregate_features_across_chains example_env example_manifest [chain_A, chain_B]
     ''false'' ''gs://bkt/out'' example_world) = Inr ()"
    by (simp add: example_defs run_defs pad_msa_spec_def msa_rows_def record_A_def record_B_def)
  then show ?thesis by (metis prod.collapse)
qed

theorem metadata_reports_chains_witness:
  "aggregate_features_across_chains example_env example_manifest [chain_A, chain_B]
     ''false'' ''gs://bkt/out'' example_world
   = (Inr (), snd (aggregate_features_across_chains example_env example_manifest
                     [chain_A, chain_B] ''false'' ''gs://bkt/out'' example_world))
   \<and> add_assembly_features example_env = add_assembly_features_spec
   \<and> metadata (features (snd (aggregate_features_across_chains example_env example_manifest
                     [chain_A, chain_B] ''false'' ''gs://bkt/out'' example_world)))
      = [(''is_homomer_or_monomer'', MStr ''false''), (''num_chains'', MInt 2)]"
proof -
  have c: "\<And>d d'. add_assembly_features example_env d = Inr d' \<Longrightarrow> length d' = length d"
    by (auto simp: example_defs annotate_length)
  from metadata_reports_chains[OF example_run_two c]
  show ?thesis using example_run_two by (simp add: chain_A_def chain_B_def example_env_def)
qed

subsection \<open>Pairing, merging and padding\<close>

lemma pad_msa_spec_depth: "pad_msa_spec f n = Inr r \<Longrightarrow> msa_depth r = Some n"
  by (auto simp: pad_msa_spec_def msa_depth_def map_of_dict_set
           split: option.splits ndarray.splits)

lemma merge_paired:
  "flag \<noteq> ''true'' \<or> length acf \<noteq> 1 \<Longrightarrow>
   merge_features env flag acf =
     (case pair_and_merge env acf of
        Inl e \<Rightarrow> Inl e
      | Inr merged \<Rightarrow> pad_msa env merged 512)"
  by (auto simp: merge_features_def)

text \<open>
  C2. When the flag is not the string \<open>true\<close> or the chains are not exactly one (so
  in particular for two or more chains with the flag unset), and every step succeeds (the
  storage client accepting the destination included), the run
  stores the record that \<^verbatim>\<open>pad_msa\<close> makes with depth 512 of the paired and merged
  record; with the padding routine as the spec describes it, the alignment depth of that
  record is exactly 512, whatever the depth of the merged record was.
\<close>

theorem multimer_padded_to_512:
  assumes "pad_msa env = pad_msa_spec"
      and "load_chains env w (chains paths_info) chain_info [] = Inr loaded"
      and "add_assembly_features env loaded = Inr all_chain_features"
      and "flag \<noteq> ''true'' \<or> length all_chain_features \<noteq> 1"
      and "pair_and_merge env all_chain_features = Inr merged"
      and "pad_msa env merged 512 = Inr padded"
      and "pickle_dump env padded = Inr bytes"
      and "upload_fault env (dest_location (resolve_output_path paths_info out)) = None"
      and "handle_fault env (dest_location (resolve_output_path paths_info out)) = None"
  shows "fst (aggregate_features_across_chains env paths_info chain_info flag out w) = Inr ()
       \<and> blobs (snd (aggregate_features_across_chains env paths_info chain_info flag out w))
            (dest_location (resolve_output_path paths_info out)) = Some bytes
       \<and> msa_depth padded = Some 512"
proof -
  have m: "merge_features env flag all_chain_features = Inr padded"
    using assms(4,5,6) by (simp add: merge_paired)
  have d: "msa_depth padded = Some 512"
    using assms(1,6) by (simp add: pad_msa_spec_depth)
  show ?thesis
    unfolding after_assembly[OF assms(2,3)] using m d
    by (simp add: store_result_ok[OF assms(9,7,8)])
qed

lemma example_load_AB:
  "load_chains example_env example_world (chains example_manifest) [chain_A, chain_B] []
     = Inr [(''A'', record_A), (''B'', record_B)]"
  by (simp add: example_defs chain_blob_location_def replace_def)

lemma example_pair_AB:
  "pair_and_merge example_env (annotate 1 [(''A'', record_A), (''B'', record_B)]) = Inr merged_AB"
  by (simp add: example_defs msa_rows_def record_A_def record_B_def merged_AB_def)

lemma example_pad_AB: "\<exists>padded. pad_msa example_env merged_AB 512 = Inr padded"
  by (simp add: example_defs pad_msa_spec_def merged_AB_def)

theorem multimer_padded_to_512_witness:
  "pad_msa example_env = pad_msa_spec
   \<and> load_chains example_env example_world (chains example_manifest) [chain_A, chain_B] []
       = Inr [(''A'', record_A), (''B'', record_B)]
   \<and> add_assembly_features example_env [(''A'', record_A), (''B'', record_B)]
       = Inr (annotate 1 [(''A'', record_A), (''B'', record_B)])
   \<and> ''false'' \<noteq> ''true''
   \<and> pair_and_merge example_env (annotate 1 [(''A'', record_A), (''B'', record_B)]) = Inr merged_AB
   \<and> msa_depth merged_AB = Some 3
   \<and> handle_fault example_env
        (dest_location (resolve_output_path example_manifest ''gs://bkt/out'')) = None
   \<and> fst (aggregate_features_across_chains example_env example_manifest [chain_A, chain_B]
             ''false'' ''gs://bkt/out'' example_world) = Inr ()
   \<and> (\<exists>padded.
         blobs (snd (aggregate_features_across_chains example_env example_manifest
                       [chain_A, chain_B] ''false'' ''gs://bkt/out'' example_world))
           (dest_location (resolve_output_path example_manifest ''gs://bkt/out'')) = Some padded
         \<and> msa_depth padded = Some 512)"
proof -
  let ?acf = "annotate 1 [(''A'', record_A), (''B'', record_B)]"
  have p: "pad_msa example_env = pad_msa_spec" by (simp add: example_defs)
  have a: "add_assembly_features example_env [(''A'', record_A), (''B'', record_B)] = Inr ?acf"
    by (simp add: example_defs)
  have f: "''false'' \<noteq> ''true'' \<or> length ?acf \<noteq> 1" by simp
  obtain padded where q: "pad_msa example_env merged_AB 512 = Inr padded"
    using example_pad_AB by blast
  have d: "pickle_dump example_env padded = Inr padded" by (simp add: example_defs)
  have u: "upload_fault example_env
             (dest_location (resolve_output_path example_manifest ''gs://bkt/out'')) = None"
    by (simp add: example_defs)
  have m3: "msa_depth merged_AB = Some 3" by (simp add: msa_depth_def merged_AB_def)
  have h: "handle_fault example_env
             (dest_location (resolve_output_path example_manifest ''gs://bkt/out'')) = None"
    by (simp add: example_defs)
  from multimer_padded_to_512[OF p example_load_AB a f example_pair_AB q d u h]
  show ?thesis using p example_load_AB a example_pair_AB m3 h by auto
qed

subsection \<open>The single-chain branch\<close>

text \<open>
  C1, as amended. With one chain listed and the flag equal to \<open>true\<close>, and every step
  succeeding, the run stores the record that the assembly annotation returns for the chain's
  converted record; neither \<^verbatim>\<open>pair_and_merge\<close> nor \<^verbatim>\<open>pad_msa\<close> has any
  influence on the run.
\<close>

theorem single_chain_record:
  assumes "chains paths_info (chain_id c) = Some p"
      and "blobs w (chain_blob_location p) = Some x"
      and "pickle_load env x = Inr raw"
      and "convert_monomer_features env raw (chain_id c) = Inr converted"
      and "add_assembly_features env [(chain_id c, converted)] = Inr [(k, annotated)]"
      and "pickle_dump env annotated = Inr bytes"
      and "upload_fault env (dest_location (resolve_output_path paths_info out)) = None"
      and "handle_fault env (chain_blob_location p) = None"
      and "handle_fault env (dest_location (resolve_output_path paths_info out)) = None"
  shows "fst (aggregate_features_across_chains env paths_info [c] ''true'' out w) = Inr ()
       \<and> blobs (snd (aggregate_features_across_chains env paths_info [c] ''true'' out w))
            (dest_location (resolve_output_path paths_info out)) = Some bytes
       \<and> (\<forall>pm pd.
            aggregate_features_across_chains (env\<lparr>pair_and_merge := pm, pad_msa := pd\<rparr>)
              paths_info [c] ''true'' out w
            = aggregate_features_across_chains env paths_info [c] ''true'' out w)"
proof -
  have l: "load_chains env w (chains paths_info) [c] [] = Inr [(chain_id c, converted)]"
    using assms(1) assms(8) assms(2) assms(3) assms(4)
    by (rule load_single[where paths = "chains paths_info"])
  have "aggregate_features_across_chains env paths_info [c] ''true'' out w
          = store_result env paths_info ''true'' out [(k, annotated)] annotated w"
    unfolding after_assembly[OF l assms(5)] by (simp add: merge_single)
  then show ?thesis
    using single_branch_ignores_library[OF l assms(5)]
    by (simp add: store_result_ok[OF assms(9,6,7)])
qed

lemma example_assembly_A:
  "add_assembly_features example_env [(''A'', record_A)] = Inr [(''A'', annotated_A)]"
  by (simp add: example_defs record_A_def annotated_A_def)

theorem single_chain_record_witness:
  "chains example_manifest (chain_id chain_A) = Some ''gs://bkt/run/A''
   \<and> blobs example_world (chain_blob_location ''gs://bkt/run/A'') = Some record_A
   \<and> pickle_load example_env record_A = Inr record_A
   \<and> convert_monomer_features example_env record_A (chain_id chain_A) = Inr record_A
   \<and> add_assembly_features example_env [(chain_id chain_A, record_A)] = Inr [(''A'', annotated_A)]
   \<and> pickle_dump example_env annotated_A = Inr annotated_A
   \<and> upload_fault example_env (dest_location (resolve_output_path example_manifest ''gs://bkt/out''))
       = None
   \<and> handle_fault example_env (chain_blob_location ''gs://bkt/run/A'') = None
   \<and> handle_fault example_env (dest_location (resolve_output_path example_manifest ''gs://bkt/out''))
       = None
   \<and> fst (aggregate_features_across_chains example_env example_manifest [chain_A] ''true''
             ''gs://bkt/out'' example_world) = Inr ()
   \<and> blobs (snd (aggregate_features_across_chains example_env example_manifest [chain_A] ''true''
                   ''gs://bkt/out'' example_world))
        (dest_location (resolve_output_path example_manifest ''gs://bkt/out'')) = Some annotated_A"
proof -
  have 1: "chains example_manifest (chain_id chain_A) = Some ''gs://bkt/run/A''"
    by (simp add: example_defs)
  have 2: "blobs example_world (chain_blob_location ''gs://bkt/run/A'') = Some record_A"
    by (simp add: example_defs chain_blob_location_def replace_def)
  have 3: "pickle_load example_env record_A = Inr record_A"
    by (simp add: example_defs)
  have 4: "convert_monomer_features example_env record_A (chain_id chain_A) = Inr record_A"
    by (simp add: example_defs)
  have 5: "add_assembly_features example_env [(chain_id chain_A, record_A)]
             = Inr [(''A'', annotated_A)]"
    using example_assembly_A by (simp add: chain_A_def)
  have 6: "pickle_dump example_env annotated_A = Inr annotated_A"
    by (simp add: example_defs)
  have 7: "upload_fault example_env
             (dest_location (resolve_output_path example_manifest ''gs://bkt/out'')) = None"
    by (simp add: example_defs)
  have 8: "handle_fault example_env (chain_blob_location ''gs://bkt/run/A'') = None"
    by (simp add: example_defs)
  have 9: "handle_fault example_env
             (dest_location (resolve_output_path example_manifest ''gs://bkt/out'')) = None"
    by (simp add: example_defs)
  from single_chain_record[OF 1 2 3 4 5 6 7 8 9]
  show ?thesis using 1 2 3 4 5 6 7 8 9 by simp
qed

text \<open>
  The claim as stated fails: the record stored is the converted record after the assembly
  annotation, which differs from the converted record by the identifiers added.
\<close>

theorem single_chain_record_counterexample:
  "convert_monomer_features example_env record_A (chain_id chain_A) = Inr record_A
   \<and> pickle_dump example_env record_A = Inr record_A
   \<and> fst (aggregate_features_across_chains example_env example_manifest [chain_A] ''true''
             ''gs://bkt/out'' example_world) = Inr ()
   \<and> blobs (snd (aggregate_features_across_chains example_env example_manifest [chain_A] ''true''
                   ''gs://bkt/out'' example_world))
        (''bkt'', ''run/full/all_chain_features.pkl'') = Some annotated_A
   \<and> annotated_A \<noteq> record_A"
  by (simp add: example_defs run_defs record_A_def annotated_A_def)

subsection \<open>The flag is compared with the string true\<close>

text \<open>
  C9. Unless the flag is exactly the string \<open>true\<close> and there is exactly one record,
  the run is the pairing-and-padding branch: its outcome is that of
  \<^verbatim>\<open>pair_and_merge\<close> followed by \<^verbatim>\<open>pad_msa\<close> with 512, whose errors it raises
  and whose result it stores. This holds for flags such as \<open>True\<close> or \<open>1\<close> also when
  one chain is present.
\<close>

theorem pairing_unless_true_and_single:
  assumes "load_chains env w (chains paths_info) chain_info [] = Inr loaded"
      and "add_assembly_features env loaded = Inr all_chain_features"
      and "flag \<noteq> ''true'' \<or> length all_chain_features \<noteq> 1"
  shows "aggregate_features_across_chains env paths_info chain_info flag out w =
           (case pair_and_merge env all_chain_features of
              Inl e \<Rightarrow> (Inl e, w)
            | Inr merged \<Rightarrow>
                (case pad_msa env merged 512 of
                   Inl e \<Rightarrow> (Inl e, w)
                 | Inr padded \<Rightarrow>
                     store_result env paths_info flag out all_chain_features padded w))"
  unfolding after_assembly[OF assms(1,2)] merge_paired[OF assms(3)]
  by (simp split: sum.splits)

lemma example_load_A:
  "load_chains example_env example_world (chains example_manifest) [chain_A] []
     = Inr [(''A'', record_A)]"
  by (simp add: example_defs chain_blob_location_def replace_def)

theorem pairing_unless_true_and_single_witness:
  "load_chains example_env example_world (chains example_manifest) [chain_A] []
     = Inr [(''A'', record_A)]
   \<and> add_assembly_features example_env [(''A'', record_A)] = Inr [(''A'', annotated_A)]
   \<and> ''True'' \<noteq> ''true''
   \<and> length [(''A'', annotated_A)] = 1
   \<and> aggregate_features_across_chains example_env example_manifest [chain_A] ''True''
        ''gs://bkt/out'' example_world =
        (case pair_and_merge example_env [(''A'', annotated_A)] of
           Inl e \<Rightarrow> (Inl e, example_world)
         | Inr merged \<Rightarrow>
             (case pad_msa example_env merged 512 of
                Inl e \<Rightarrow> (Inl e, example_world)
              | Inr padded \<Rightarrow>
                  store_result example_env example_manifest ''True'' ''gs://bkt/out''
                    [(''A'', annotated_A)] padded example_world))
   \<and> aggregate_features_across_chains example_env example_manifest [chain_A] ''1''
        ''gs://bkt/out'' example_world =
        (case pair_and_merge example_env [(''A'', annotated_A)] of
           Inl e \<Rightarrow> (Inl e, example_world)
         | Inr merged \<Rightarrow>
             (case pad_msa example_env merged 512 of
                Inl e \<Rightarrow> (Inl e, example_world)
              | Inr padded \<Rightarrow>
                  store_result example_env example_manifest ''1'' ''gs://bkt/out''
                    [(''A'', annotated_A)] padded example_world))"
proof -
  have t: "''True'' \<noteq> ''true'' \<or> length [(''A'', annotated_A)] \<noteq> 1" by simp
  have o: "''1'' \<noteq> ''true'' \<or> length [(''A'', annotated_A)] \<noteq> 1" by simp
  show ?thesis
    using pairing_unless_true_and_single[OF example_load_A example_assembly_A t]
      pairing_unless_true_and_single[OF example_load_A example_assembly_A o]
      example_load_A example_assembly_A
    by simp
qed

subsection \<open>No padding in the single-chain branch\<close>

lemma msa_depth_dict_set: "k \<noteq> ''msa'' \<Longrightarrow> msa_depth (dict_set k v f) = msa_depth f"
  by (simp add: msa_depth_def map_of_dict_set)

lemma annotate_msa_depth:
  "map (\<lambda>kf. msa_depth (snd kf)) (annotate i d) = map (\<lambda>kf. msa_depth (snd kf)) d"
  by (induction i d rule: annotate.induct) (simp_all add: msa_depth_dict_set)

text \<open>
  C10. In the single-chain branch the stored record is the chain's annotated record and the
  padding routine is never consulted: replacing it changes nothing. As the assembly
  annotation keeps the alignment depth of every record, the depth of the stored record is
  that of the converted record, not the constant 512.
\<close>

theorem single_chain_not_padded:
  assumes "load_chains env w (chains paths_info) chain_info [] = Inr [(cid, converted)]"
      and "add_assembly_features env [(cid, converted)] = Inr [(k, annotated)]"
      and "\<And>d d'. add_assembly_features env d = Inr d' \<Longrightarrow>
             map (\<lambda>kf. msa_depth (snd kf)) d' = map (\<lambda>kf. msa_depth (snd kf)) d"
      and "pickle_dump env annotated = Inr bytes"
      and "upload_fault env (dest_location (resolve_output_path paths_info out)) = None"
      and "handle_fault env (dest_location (resolve_output_path paths_info out)) = None"
  shows "blobs (snd (aggregate_features_across_chains env paths_info chain_info ''true'' out w))
            (dest_location (resolve_output_path paths_info out)) = Some bytes
       \<and> msa_depth annotated = msa_depth converted
       \<and> (\<forall>pd. aggregate_features_across_chains (env\<lparr>pad_msa := pd\<rparr>)
                  paths_info chain_info ''true'' out w
                = aggregate_features_across_chains env paths_info chain_info ''true'' out w)"
proof (intro conjI allI)
  have "aggregate_features_across_chains env paths_info chain_info ''true'' out w
          = store_result env paths_info ''true'' out [(k, annotated)] annotated w"
    unfolding after_assembly[OF assms(1,2)] by (simp add: merge_single)
  then show "blobs (snd (aggregate_features_across_chains env paths_info chain_info ''true'' out w))
            (dest_location (resolve_output_path paths_info out)) = Some bytes"
    by (simp add: store_result_ok[OF assms(6,4,5)])
next
  show "msa_depth annotated = msa_depth converted"
    using assms(3)[OF assms(2)] by simp
next
  fix pd
  show "aggregate_features_across_chains (env\<lparr>pad_msa := pd\<rparr>)
                  paths_info chain_info ''true'' out w
                = aggregate_features_across_chains env paths_info chain_info ''true'' out w"
    using single_branch_ignores_library[OF assms(1,2), where pm = "pair_and_merge env" and pd = pd] by simp
qed

theorem single_chain_not_padded_witness:
  "load_chains example_env example_world (chains example_manifest) [chain_A] []
     = Inr [(''A'', record_A)]
   \<and> add_assembly_features example_env [(''A'', record_A)] = Inr [(''A'', annotated_A)]
   \<and> add_assembly_features example_env = add_assembly_features_spec
   \<and> pickle_dump example_env annotated_A = Inr annotated_A
   \<and> upload_fault example_env (dest_location (resolve_output_path example_manifest ''gs://bkt/out''))
       = None
   \<and> handle_fault example_env (dest_location (resolve_output_path example_manifest ''gs://bkt/out''))
       = None
   \<and> blobs (snd (aggregate_features_across_chains example_env example_manifest [chain_A] ''true''
                   ''gs://bkt/out'' example_world))
        (dest_location (resolve_output_path example_manifest ''gs://bkt/out'')) = Some annotated_A
   \<and> msa_depth annotated_A = msa_depth record_A
   \<and> msa_depth record_A = Some 2"
proof -
  have c: "\<And>d d'. add_assembly_features example_env d = Inr d' \<Longrightarrow>
             map (\<lambda>kf. msa_depth (snd kf)) d' = map (\<lambda>kf. msa_depth (snd kf)) d"
    by (auto simp: example_defs annotate_msa_depth)
  have d: "pickle_dump example_env annotated_A = Inr annotated_A"
    by (simp add: example_defs)
  have u: "upload_fault example_env
             (dest_location (resolve_output_path example_manifest ''gs://bkt/out'')) = None"
    by (simp add: example_defs)
  have r: "msa_depth record_A = Some 2"
    by (simp add: msa_depth_def record_A_def)
  have h: "handle_fault example_env
             (dest_location (resolve_output_path example_manifest ''gs://bkt/out'')) = None"
    by (simp add: example_defs)
  from single_chain_not_padded[OF example_load_A example_assembly_A c d u h]
  show ?thesis using example_load_A example_assembly_A d u h r by (simp add: example_env_def)
qed

subsection \<open>Where the blobs are read and written\<close>

lemma os_path_join_plain:
  "p \<noteq> [] \<Longrightarrow> last p \<noteq> CHR ''/'' \<Longrightarrow>
   os_path_join p ''all_chain_features.pkl'' = p @ ''/all_chain_features.pkl''"
  by (simp add: os_path_join_def)

lemma run_success_parts:
  assumes "aggregate_features_across_chains env paths_info chain_info flag out w = (Inr (), w')"
  obtains loaded acf np_example bytes where
    "load_chains env w (chains paths_info) chain_info [] = Inr loaded"
    "add_assembly_features env loaded = Inr acf"
    "merge_features env flag acf = Inr np_example"
    "pickle_dump env np_example = Inr bytes"
    "w' = w\<lparr>blobs := (blobs w)(dest_location (resolve_output_path paths_info out) \<mapsto> bytes),
            features :=
              \<lparr>uri = os_path_join (resolve_output_path paths_info out) ''all_chain_features.pkl'',
               metadata = [(''is_homomer_or_monomer'', MStr flag),
                           (''num_chains'', MInt (int (length acf)))]\<rparr>\<rparr>"
proof -
  from assms obtain loaded acf np_example where
    l: "load_chains env w (chains paths_info) chain_info [] = Inr loaded"
    and a: "add_assembly_features env loaded = Inr acf"
    and m: "merge_features env flag acf = Inr np_example"
    and s: "store_result env paths_info flag out acf np_example w = (Inr (), w')"
    by (auto simp: aggregate_features_across_chains_def split: sum.splits)
  from s obtain bytes where d: "pickle_dump env np_example = Inr bytes"
    and u: "upload_fault env (dest_location (resolve_output_path paths_info out)) = None"
    and h: "handle_fault env (dest_location (resolve_output_path paths_info out)) = None"
    by (auto simp: store_result_def save_features_def Let_def split: sum.splits option.splits)
  have "w' = w\<lparr>blobs := (blobs w)(dest_location (resolve_output_path paths_info out) \<mapsto> bytes),
            features :=
              \<lparr>uri = os_path_join (resolve_output_path paths_info out) ''all_chain_features.pkl'',
               metadata = [(''is_homomer_or_monomer'', MStr flag),
                           (''num_chains'', MInt (int (length acf)))]\<rparr>\<rparr>"
    using s store_result_ok[OF h d u, of flag acf w] by simp
  with l a m d show ?thesis by (rule that)
qed

text \<open>
  C7, as amended. On a successful run with every listed chain's manifest path and the output
  prefix of the shape \<^verbatim>\<open>gs://bucket/prefix\<close>: each listed chain's blob exists and is
  read at the chain's path followed by \<^verbatim>\<open>/features.pkl\<close>; exactly one blob is written,
  at \<^verbatim>\<open>os.path.join(output_prefix, 'all_chain_features.pkl')\<close>, where the output prefix is
  the manifest's \<open>full_protein\<close> when present and the argument otherwise; the artifact's
  uri is that address; and the address is the output prefix followed by
  \<^verbatim>\<open>/all_chain_features.pkl\<close> when the prefix does not end in a slash.
\<close>

theorem storage_paths:
  assumes "aggregate_features_across_chains env paths_info chain_info flag out w = (Inr (), w')"
      and "\<forall>c \<in> set chain_info. \<forall>p. chains paths_info (chain_id c) = Some p \<longrightarrow> gs_path p"
      and "output_prefix = (case full_protein paths_info of Some fp \<Rightarrow> fp | None \<Rightarrow> out)"
      and "gs_path output_prefix"
  shows "(\<forall>c \<in> set chain_info. \<exists>p x raw.
            chains paths_info (chain_id c) = Some p
            \<and> blobs w (chain_blob_location p) = Some x
            \<and> gs_uri (chain_blob_location p) = p @ ''/features.pkl''
            \<and> pickle_load env x = Inr raw)
       \<and> (\<exists>bytes. blobs w' = (blobs w)(dest_location output_prefix \<mapsto> bytes))
       \<and> gs_uri (dest_location output_prefix)
            = os_path_join output_prefix ''all_chain_features.pkl''
       \<and> uri (features w') = gs_uri (dest_location output_prefix)
       \<and> (last output_prefix \<noteq> CHR ''/'' \<longrightarrow>
            gs_uri (dest_location output_prefix) = output_prefix @ ''/all_chain_features.pkl'')"
proof -
  have o: "output_prefix = resolve_output_path paths_info out"
    using assms(3) by (simp add: resolve_output_path_def)
  have d: "gs_uri (dest_location output_prefix)
             = os_path_join output_prefix ''all_chain_features.pkl''"
    using assms(4) by (rule dest_uri_gs)
  have ne: "output_prefix \<noteq> []"
    using assms(4) by (auto simp: gs_path_def)
  have pl: "last output_prefix \<noteq> CHR ''/'' \<longrightarrow>
            gs_uri (dest_location output_prefix) = output_prefix @ ''/all_chain_features.pkl''"
    using d ne by (simp add: os_path_join_plain)
  show ?thesis
  proof (rule run_success_parts[OF assms(1)])
    fix loaded acf np_example bytes
    assume l: "load_chains env w (chains paths_info) chain_info [] = Inr loaded"
      and w0: "w' = w\<lparr>blobs := (blobs w)(dest_location (resolve_output_path paths_info out) \<mapsto> bytes),
            features :=
              \<lparr>uri = os_path_join (resolve_output_path paths_info out) ''all_chain_features.pkl'',
               metadata = [(''is_homomer_or_monomer'', MStr flag),
                           (''num_chains'', MInt (int (length acf)))]\<rparr>\<rparr>"
    have bw: "blobs w' = (blobs w)(dest_location output_prefix \<mapsto> bytes)"
      unfolding w0 o by simp
    have uw: "uri (features w') = os_path_join output_prefix ''all_chain_features.pkl''"
      unfolding w0 o by simp
    have reads: "\<forall>c \<in> set chain_info. \<exists>p x raw.
            chains paths_info (chain_id c) = Some p
            \<and> blobs w (chain_blob_location p) = Some x
            \<and> gs_uri (chain_blob_location p) = p @ ''/features.pkl''
            \<and> pickle_load env x = Inr raw"
    proof
      fix c assume c: "c \<in> set chain_info"
      from load_chains_reads[OF l c] obtain p x raw where
        r: "chains paths_info (chain_id c) = Some p" "blobs w (chain_blob_location p) = Some x"
           "pickle_load env x = Inr raw"
        by blast
      have "gs_path p" using assms(2) c r(1) by blast
      then have "gs_uri (chain_blob_location p) = p @ ''/features.pkl''"
        by (rule chain_uri_gs)
      with r show "\<exists>p x raw.
            chains paths_info (chain_id c) = Some p
            \<and> blobs w (chain_blob_location p) = Some x
            \<and> gs_uri (chain_blob_location p) = p @ ''/features.pkl''
            \<and> pickle_load env x = Inr raw"
        by blast
    qed
    have b: "\<exists>bytes. blobs w' = (blobs w)(dest_location output_prefix \<mapsto> bytes)"
      using bw by (rule exI)
    have u: "uri (features w') = gs_uri (dest_location output_prefix)"
      using uw d by simp
    from reads b d u pl show ?thesis by (intro conjI)
  qed
qed


theorem storage_paths_witness:
  "aggregate_features_across_chains example_env example_manifest [chain_A, chain_B]
     ''false'' ''gs://bkt/out'' example_world
   = (Inr (), snd (aggregate_features_across_chains example_env example_manifest
                     [chain_A, chain_B] ''false'' ''gs://bkt/out'' example_world))
   \<and> chains example_manifest (chain_id chain_A) = Some ''gs://bkt/run/A''
   \<and> chains example_manifest (chain_id chain_B) = Some ''gs://bkt/run/B''
   \<and> gs_path ''gs://bkt/run/A'' \<and> gs_path ''gs://bkt/run/B''
   \<and> full_protein example_manifest = Some ''gs://bkt/run/full''
   \<and> gs_path ''gs://bkt/run/full''
   \<and> (\<exists>bytes. blobs (snd (aggregate_features_across_chains example_env example_manifest
                     [chain_A, chain_B] ''false'' ''gs://bkt/out'' example_world))
                 = (blobs example_world)(dest_location ''gs://bkt/run/full'' \<mapsto> bytes))
   \<and> gs_uri (dest_location ''gs://bkt/run/full'') = ''gs://bkt/run/full/all_chain_features.pkl''
   \<and> uri (features (snd (aggregate_features_across_chains example_env example_manifest
                     [chain_A, chain_B] ''false'' ''gs://bkt/out'' example_world)))
       = ''gs://bkt/run/full/all_chain_features.pkl''"
proof -
  have a: "chains example_manifest (chain_id chain_A) = Some ''gs://bkt/run/A''"
    and b: "chains example_manifest (chain_id chain_B) = Some ''gs://bkt/run/B''"
    and f: "full_protein example_manifest = Some ''gs://bkt/run/full''"
    by (simp_all add: example_defs)
  have ga: "gs_path ''gs://bkt/run/A''" and gb: "gs_path ''gs://bkt/run/B''"
    and gf: "gs_path ''gs://bkt/run/full''"
    by (simp_all add: gs_path_def sublist_code)
  have h2: "\<forall>c \<in> set [chain_A, chain_B]. \<forall>p.
              chains example_manifest (chain_id c) = Some p \<longrightarrow> gs_path p"
    using a b ga gb by simp
  have h3: "''gs://bkt/run/full''
              = (case full_protein example_manifest of Some fp \<Rightarrow> fp | None \<Rightarrow> ''gs://bkt/out'')"
    using f by simp
  have l: "last ''gs://bkt/run/full'' \<noteq> CHR ''/''" by simp
  note sp = storage_paths[OF example_run_two h2 h3 gf]
  from sp have c1: "\<exists>bytes. blobs (snd (aggregate_features_across_chains example_env
                     example_manifest [chain_A, chain_B] ''false'' ''gs://bkt/out'' example_world))
                 = (blobs example_world)(dest_location ''gs://bkt/run/full'' \<mapsto> bytes)"
    by (elim conjE)
  from sp have c2: "uri (features (snd (aggregate_features_across_chains example_env
                     example_manifest [chain_A, chain_B] ''false'' ''gs://bkt/out'' example_world)))
                 = gs_uri (dest_location ''gs://bkt/run/full'')"
    by (elim conjE)
  from sp have "last ''gs://bkt/run/full'' \<noteq> CHR ''/'' \<longrightarrow>
            gs_uri (dest_location ''gs://bkt/run/full'')
              = ''gs://bkt/run/full'' @ ''/all_chain_features.pkl''"
    by (elim conjE)
  then have c3: "gs_uri (dest_location ''gs://bkt/run/full'')
                   = ''gs://bkt/run/full/all_chain_features.pkl''"
    by simp
  have c4: "uri (features (snd (aggregate_features_across_chains example_env
                     example_manifest [chain_A, chain_B] ''false'' ''gs://bkt/out'' example_world)))
              = ''gs://bkt/run/full/all_chain_features.pkl''"
    using c2 c3 by (rule trans)
  from example_run_two a b ga gb f gf c1 c3 c4 show ?thesis
    by (intro conjI)
qed

text \<open>
  The claim as stated fails. With the output prefix \<^verbatim>\<open>gs://bkt/run/full/\<close> the record
  is written at \<^verbatim>\<open>gs://bkt/run/full/all_chain_features.pkl\<close> and nothing at the prefix
  followed by \<^verbatim>\<open>/all_chain_features.pkl\<close>. With the chain path \<^verbatim>\<open>gs://bkt\<close> a blob
  stored at \<^verbatim>\<open>gs://bkt/features.pkl\<close> is not found: the run looks for the blob named
  \<^verbatim>\<open>/features.pkl\<close>.
\<close>

theorem storage_paths_counterexample:
  "full_protein manifest_slash = Some ''gs://bkt/run/full/''
   \<and> fst (aggregate_features_across_chains example_env manifest_slash [chain_A] ''true''
             ''gs://bkt/out'' example_world) = Inr ()
   \<and> blobs (snd (aggregate_features_across_chains example_env manifest_slash [chain_A] ''true''
                   ''gs://bkt/out'' example_world))
        (''bkt'', ''run/full/all_chain_features.pkl'') = Some annotated_A
   \<and> blobs (snd (aggregate_features_across_chains example_env manifest_slash [chain_A] ''true''
                   ''gs://bkt/out'' example_world))
        (''bkt'', ''run/full//all_chain_features.pkl'') = None
   \<and> gs_uri (''bkt'', ''run/full//all_chain_features.pkl'')
       = ''gs://bkt/run/full/'' @ ''/all_chain_features.pkl''
   \<and> chains manifest_root (chain_id chain_A) = Some ''gs://bkt''
   \<and> blobs world_root (''bkt'', ''features.pkl'') = Some record_A
   \<and> gs_uri (''bkt'', ''features.pkl'') = ''gs://bkt'' @ ''/features.pkl''
   \<and> fst (aggregate_features_across_chains example_env manifest_root [chain_A] ''true''
             ''gs://bkt/out'' world_root)
       = Inl (FileNotFoundError
               ''Features file not found in GCS for chain A: gs://bkt//features.pkl'')"
  by (simp add: example_defs run_defs manifest_slash_def manifest_root_def world_root_def
        record_A_def annotated_A_def)

end
